theory Spec2Isabelle
  imports Complex_Main
begin

section \<open>Values of the Python program\<close>

text \<open>
  The script \<^verbatim>\<open>scripts/create_parquet.py\<close> synthesises row groups with numpy, hands them
  to a pyarrow \<^verbatim>\<open>ParquetWriter\<close> and stops once the file on disk has reached a target size.

  Python integers are \<open>int\<close>. Where the script fixes a machine width (\<^verbatim>\<open>dtype=np.int64\<close>,
  \<^verbatim>\<open>astype(np.int16)\<close>, \<^verbatim>\<open>astype(np.int32)\<close>) the two's complement wrap-around is written
  out. Python floats are carried as \<open>real\<close>: binary64 rounding is not part of the model,
  and no statement below depends on the value of a floating-point column.

  Exceptions are values of \<open>py_error\<close>; a function that can raise returns \<open>py_error + 'a\<close>.
\<close>

datatype py_error =
    ValueError
  | OverflowError
  | IndexError
  | FileNotFoundError
  | RuntimeError string
  | ExternalError string

definition fits_int64 :: "int \<Rightarrow> bool" where
  "fits_int64 x \<longleftrightarrow> - (2 ^ 63) \<le> x \<and> x < 2 ^ 63"

definition wrap64 :: "int \<Rightarrow> int" where
  "wrap64 x = (x + 2 ^ 63) mod 2 ^ 64 - 2 ^ 63"

definition wrap32 :: "int \<Rightarrow> int" where
  "wrap32 x = (x + 2 ^ 31) mod 2 ^ 32 - 2 ^ 31"

definition wrap16 :: "int \<Rightarrow> int" where
  "wrap16 x = (x + 2 ^ 15) mod 2 ^ 16 - 2 ^ 15"

text \<open>\<^verbatim>\<open>int(x)\<close> on a float truncates towards zero.\<close>

definition py_int :: "real \<Rightarrow> int" where
  "py_int x = (if 0 \<le> x then \<lfloor>x\<rfloor> else \<lceil>x\<rceil>)"

text \<open>Rounding to the nearest integer, ties to even, as \<^verbatim>\<open>np.round\<close> and \<^verbatim>\<open>format\<close> do.\<close>

definition round_half_even :: "real \<Rightarrow> int" where
  "round_half_even x =
     (let f = \<lfloor>x\<rfloor>; d = x - of_int f
      in if d < 1 / 2 then f else if 1 / 2 < d then f + 1 else if even f then f else f + 1)"

definition np_round :: "nat \<Rightarrow> real \<Rightarrow> real" where
  "np_round decimals x = of_int (round_half_even (x * 10 ^ decimals)) / 10 ^ decimals"

subsection \<open>Decimal text of integers\<close>

fun str_nat :: "nat \<Rightarrow> string" where
  "str_nat n = (if n < 10 then [''0123456789'' ! n]
                else str_nat (n div 10) @ [''0123456789'' ! (n mod 10)])"

declare str_nat.simps [simp del]

definition str_int :: "int \<Rightarrow> string" where
  "str_int i = (if i < 0 then CHR ''-'' # str_nat (nat (- i)) else str_nat (nat i))"

subsection \<open>Utilities of the script\<close>

text \<open>
  \<^verbatim>\<open>f"{f:.2f}"\<close>: the value rounded to two decimals, ties to even, with a minus sign for
  a negative value.
\<close>

definition format_2f :: "real \<Rightarrow> string" where
  "format_2f f =
     (let q = nat (round_half_even (\<bar>f\<bar> * 100))
      in (if f < 0 then ''-'' else '''') @ str_nat (q div 100) @ ''.''
         @ [''0123456789'' ! (q mod 100 div 10), ''0123456789'' ! (q mod 10)])"

text \<open>
  \<^verbatim>\<open>human_bytes\<close>: the loop over \<^verbatim>\<open>units\<close> divides by 1024 until the value is below 1024
  or the last unit is reached; the \<^verbatim>\<open>return\<close> after the loop is never reached.
\<close>

fun human_bytes_loop :: "real \<Rightarrow> string list \<Rightarrow> string" where
  "human_bytes_loop f [] = format_2f f @ '' TB''"
| "human_bytes_loop f (u # us) =
     (if f < 1024 \<or> u = ''TB'' then format_2f f @ '' '' @ u
      else human_bytes_loop (f / 1024) us)"

definition human_bytes :: "int \<Rightarrow> string" where
  "human_bytes n = human_bytes_loop (of_int n) [''B'', ''KB'', ''MB'', ''GB'', ''TB'']"

datatype kwval = KwNone | KwStr string | KwInt int

text \<open>\<^verbatim>\<open>make_writer_kwargs\<close> builds a dict; its items are kept in insertion order.\<close>

definition make_writer_kwargs :: "string option \<Rightarrow> int option \<Rightarrow> (string \<times> kwval) list" where
  "make_writer_kwargs compression compression_level =
     (case compression of
        Some c \<Rightarrow>
          [(''compression'', KwStr c)]
          @ (case compression_level of
               Some l \<Rightarrow> [(''compression_level'', KwInt l)]
             | None \<Rightarrow> [])
      | None \<Rightarrow> [(''compression'', KwNone)])"

section \<open>Arrow tables\<close>

datatype arrow_type =
    T_int64 | T_int16 | T_float64 | T_float32 | T_bool | T_string | T_timestamp_ms

text \<open>A column is a typed array; \<open>None\<close> is a null slot.\<close>

datatype column =
    Int64Array "int option list"
  | Int16Array "int option list"
  | Float64Array "real option list"
  | Float32Array "real option list"
  | BoolArray "bool option list"
  | StringArray "string option list"
  | TimestampArray "int option list"

type_synonym table = "(string \<times> column) list"

fun column_type :: "column \<Rightarrow> arrow_type" where
  "column_type (Int64Array _) = T_int64"
| "column_type (Int16Array _) = T_int16"
| "column_type (Float64Array _) = T_float64"
| "column_type (Float32Array _) = T_float32"
| "column_type (BoolArray _) = T_bool"
| "column_type (StringArray _) = T_string"
| "column_type (TimestampArray _) = T_timestamp_ms"

fun column_len :: "column \<Rightarrow> nat" where
  "column_len (Int64Array xs) = length xs"
| "column_len (Int16Array xs) = length xs"
| "column_len (Float64Array xs) = length xs"
| "column_len (Float32Array xs) = length xs"
| "column_len (BoolArray xs) = length xs"
| "column_len (StringArray xs) = length xs"
| "column_len (TimestampArray xs) = length xs"

text \<open>The null mask of a column: \<open>True\<close> at the null slots.\<close>

fun column_nulls :: "column \<Rightarrow> bool list" where
  "column_nulls (Int64Array xs) = map (\<lambda>x. x = None) xs"
| "column_nulls (Int16Array xs) = map (\<lambda>x. x = None) xs"
| "column_nulls (Float64Array xs) = map (\<lambda>x. x = None) xs"
| "column_nulls (Float32Array xs) = map (\<lambda>x. x = None) xs"
| "column_nulls (BoolArray xs) = map (\<lambda>x. x = None) xs"
| "column_nulls (StringArray xs) = map (\<lambda>x. x = None) xs"
| "column_nulls (TimestampArray xs) = map (\<lambda>x. x = None) xs"

definition table_schema :: "table \<Rightarrow> (string \<times> arrow_type) list" where
  "table_schema tbl = map (\<lambda>(name, col). (name, column_type col)) tbl"

text \<open>
  \<^verbatim>\<open>pa.table\<close> refuses columns of unequal length; \<^verbatim>\<open>num_rows\<close> is the common length.
\<close>

definition pa_table :: "(string \<times> column) list \<Rightarrow> py_error + table" where
  "pa_table cols =
     (case cols of
        [] \<Rightarrow> Inr []
      | (name, c) # rest \<Rightarrow>
          if list_all (\<lambda>(name', c'). column_len c' = column_len c) rest then Inr cols
          else Inl (ExternalError ''ArrowInvalid''))"

definition num_rows :: "table \<Rightarrow> nat" where
  "num_rows tbl = (case tbl of [] \<Rightarrow> 0 | (name, c) # rest \<Rightarrow> column_len c)"

text \<open>Looking a column up by name, as \<^verbatim>\<open>tbl["event_id"]\<close> does.\<close>

definition table_column :: "table \<Rightarrow> string \<Rightarrow> column option" where
  "table_column tbl name = map_of tbl name"

section \<open>numpy\<close>

text \<open>
  The random generator is numpy's and is not part of the script, so it is a parameter:
  a state type \<open>'g\<close>, the seeding \<^verbatim>\<open>default_rng\<close> (\<open>None\<close> when numpy rejects the seed, as
  it does for a negative one) and one sampler per \<^verbatim>\<open>Generator\<close> method the script calls. A sampler
  takes the state and returns one sample with the advanced state; a call with
  \<^verbatim>\<open>size=n\<close> fills an array with \<open>n\<close> successive samples (\<open>draws\<close>), so the array has
  \<open>n\<close> entries by construction. \<open>astype_float32\<close> is the rounding to binary32.
\<close>

record 'g numpy =
  default_rng :: "int \<Rightarrow> 'g option"
  rng_zipf :: "real \<Rightarrow> 'g \<Rightarrow> int \<times> 'g"
  rng_integers :: "int \<Rightarrow> int \<Rightarrow> 'g \<Rightarrow> int \<times> 'g"
  rng_lognormal :: "real \<Rightarrow> real \<Rightarrow> 'g \<Rightarrow> real \<times> 'g"
  rng_geometric :: "real \<Rightarrow> 'g \<Rightarrow> int \<times> 'g"
  rng_standard_normal :: "'g \<Rightarrow> real \<times> 'g"
  rng_exponential :: "real \<Rightarrow> 'g \<Rightarrow> real \<times> 'g"
  rng_beta :: "real \<Rightarrow> real \<Rightarrow> 'g \<Rightarrow> real \<times> 'g"
  rng_random :: "'g \<Rightarrow> real \<times> 'g"
  rng_choice :: "string list \<Rightarrow> 'g \<Rightarrow> string \<times> 'g"
  astype_float32 :: "real \<Rightarrow> real"

fun draws :: "nat \<Rightarrow> ('g \<Rightarrow> 'a \<times> 'g) \<Rightarrow> 'g \<Rightarrow> 'a list \<times> 'g" where
  "draws 0 f g = ([], g)"
| "draws (Suc n) f g =
     (let (x, g1) = f g; (xs, g2) = draws n f g1 in (x # xs, g2))"

text \<open>
  What the script relies on: \<^verbatim>\<open>rng.integers(low, high)\<close> lies in \<open>[low, high)\<close>.
\<close>

definition rng_ok :: "'g numpy \<Rightarrow> bool" where
  "rng_ok N \<longleftrightarrow>
     (\<forall>lo hi g. lo < hi \<longrightarrow> lo \<le> fst (rng_integers N lo hi g) \<and> fst (rng_integers N lo hi g) < hi)"

text \<open>
  \<^verbatim>\<open>np.arange(start, stop, dtype=np.int64)\<close>: an empty range gives an empty array without
  looking at the bounds; otherwise the first entry and the second one are converted from
  Python integers, which raises \<^verbatim>\<open>OverflowError\<close> outside 64 bits, and the remaining
  entries are filled with 64-bit arithmetic.
\<close>

definition np_arange_int64 :: "int \<Rightarrow> int \<Rightarrow> py_error + int list" where
  "np_arange_int64 start stop =
     (let len = nat (stop - start)
      in if len = 0 then Inr []
         else if \<not> fits_int64 start then Inl OverflowError
         else if 2 \<le> len \<and> \<not> fits_int64 (start + 1) then Inl OverflowError
         else Inr (map (\<lambda>i. wrap64 (start + int i)) [0..<len]))"

text \<open>
  Indexing an array with an integer array: a negative index counts from the end, an
  index out of bounds raises \<^verbatim>\<open>IndexError\<close>.
\<close>

definition np_take :: "'a list \<Rightarrow> int list \<Rightarrow> py_error + 'a list" where
  "np_take xs idx =
     (let len = int (length xs)
      in if list_all (\<lambda>i. - len \<le> i \<and> i < len) idx
         then Inr (map (\<lambda>i. xs ! nat (if i < 0 then i + len else i)) idx)
         else Inl IndexError)"

text \<open>
  \<^verbatim>\<open>np.apply_along_axis("".join, 1, a)\<close> calls the function on the first row to learn the
  result type and raises \<^verbatim>\<open>ValueError\<close> when there is no row; the result array has the
  string width of the first joined row.
\<close>

definition apply_along_axis_join :: "string list list \<Rightarrow> py_error + string list" where
  "apply_along_axis_join rows =
     (case rows of
        [] \<Rightarrow> Inl ValueError
      | r # _ \<Rightarrow> Inr (map (\<lambda>row. take (length (concat r)) (concat row)) rows))"

definition upper_letters :: "string list" where
  "upper_letters = map (\<lambda>c. [c]) ''ABCDEFGHIJKLMNOPQRSTUVWXYZ''"

definition lower_letters :: "string list" where
  "lower_letters = map (\<lambda>c. [c]) ''abcdefghijklmnopqrstuvwxyz''"

definition country_codes :: "string list" where
  "country_codes = [''US'', ''CA'', ''GB'', ''DE'', ''FR'', ''NL'', ''SE'', ''NO'', ''ES'',
                    ''IT'', ''BR'', ''IN'', ''JP'', ''AU'']"

definition channel_vals :: "string list" where
  "channel_vals = [''organic'', ''paid'', ''email'', ''referral'', ''social'']"

definition pages :: "string list" where
  "pages = [''/home'', ''/search'', ''/product'', ''/cart'', ''/checkout'', ''/account'',
            ''/help'']"

text \<open>The nested helper \<^verbatim>\<open>two_letter\<close> of \<^verbatim>\<open>make_rowgroup\<close>.\<close>

definition two_letter :: "int list \<Rightarrow> py_error + string list" where
  "two_letter x =
     (case np_take lower_letters (map (\<lambda>v. wrap32 (v div 26)) x) of
        Inl e \<Rightarrow> Inl e
      | Inr la \<Rightarrow>
          (case np_take lower_letters (map (\<lambda>v. wrap32 (v mod 26)) x) of
             Inl e \<Rightarrow> Inl e
           | Inr lb \<Rightarrow> Inr (map2 (\<lambda>p q. (p @ []) @ q) la lb)))"

section \<open>The row-group synthesiser\<close>

text \<open>
  \<^verbatim>\<open>make_rowgroup(n_rows, rng, base_id, start_ts_ms)\<close>. The generator is mutated in place
  by the script; the model returns the advanced state with the table. The samplers are
  called in the order of the source. A negative \<^verbatim>\<open>size\<close> is refused by the first
  sampler with \<^verbatim>\<open>ValueError\<close>; adding a Python integer outside 64 bits to an
  \<^verbatim>\<open>int64\<close> array raises \<^verbatim>\<open>OverflowError\<close>. \<^verbatim>\<open>all_nulls\<close> is a list of \<open>n\<close> times
  \<^verbatim>\<open>None\<close>, which \<^verbatim>\<open>pa.array\<close> turns into null slots of the requested type.
\<close>

definition dq :: string where
  "dq = [CHR 0x22]"

definition make_rowgroup ::
  "'g numpy \<Rightarrow> int \<Rightarrow> 'g \<Rightarrow> int \<Rightarrow> int \<Rightarrow> py_error + (table \<times> 'g)" where
  "make_rowgroup N n_rows rng base_id start_ts_ms =
     (case np_arange_int64 base_id (base_id + n_rows) of
        Inl e \<Rightarrow> Inl e
      | Inr ids \<Rightarrow>
     (if n_rows < 0 then Inl ValueError else
     (let n = nat n_rows;
         (raw_zipf, g1) = draws n (rng_zipf N 1.5) rng;
         user_id = map (\<lambda>z. wrap64 (z mod 5000000 + 1)) raw_zipf;
         (session_id, g2) = draws n (rng_integers N 1 50000000) g1
     in (if \<not> fits_int64 start_ts_ms then Inl OverflowError else
     (let (jitter, g3) = draws n (rng_integers N 0 2000) g2;
         ts = map2 (\<lambda>i j. wrap64 (wrap64 (start_ts_ms + i mod (7 * 24 * 3600 * 1000)) + j))
                ids jitter;
         (lognormal, g4) = draws n (rng_lognormal N 2.8 1.2) g3;
         price = map (np_round 2) lognormal;
         (geometric, g5) = draws n (rng_geometric N 0.45) g4;
         quantity = map wrap16 geometric;
         (normal, g6) = draws n (rng_standard_normal N) g5;
         score = map (astype_float32 N) normal;
         (exponential, g7) = draws n (rng_exponential N 120) g6;
         latency_ms = map (np_round 1) exponential;
         (beta, g8) = draws n (rng_beta N 5 2) g7;
         rating = map (\<lambda>b. astype_float32 N (np_round 1 (b * 4 + 1))) beta;
         (refund_u, g9) = draws n (rng_random N) g8;
         is_refund = map (\<lambda>u. u < 0.02) refund_u;
         (mobile_u, g10) = draws n (rng_random N) g9;
         is_mobile = map (\<lambda>u. u < 0.55) mobile_u;
         (country_idx, g11) = draws n (rng_integers N 0 (int (length country_codes))) g10
     in (case np_take country_codes country_idx of Inl e \<Rightarrow> Inl e | Inr country0 \<Rightarrow>
     (let (channel_idx, g12) = draws n (rng_integers N 0 (int (length channel_vals))) g11
     in (case np_take channel_vals channel_idx of Inl e \<Rightarrow> Inl e | Inr channel \<Rightarrow>
     (let (sku_letters, g13) = draws n (draws 5 (rng_choice N upper_letters)) g12;
         (sku_nums, g14) = draws n (rng_integers N 0 10000) g13
     in (case apply_along_axis_join sku_letters of Inl e \<Rightarrow> Inl e | Inr joined \<Rightarrow>
     (let product_sku = map2 (@) (map (\<lambda>s. ''SKU-'' @ s) joined)
                         (map (\<lambda>k. ''-'' @ str_int k) sku_nums);
         (page_idx, g15) = draws n (rng_integers N 0 (int (length pages))) g14
     in (case np_take pages page_idx of Inl e \<Rightarrow> Inl e | Inr page \<Rightarrow>
     (let (q, g16) = draws n (rng_integers N 0 10000000) g15;
         url0 = map2 (@) (map (\<lambda>p. p @ ''?q='') page) (map str_int q);
         (k1, g17) = draws n (rng_integers N 0 (26 ^ 2)) g16;
         (k2, g18) = draws n (rng_integers N 0 (26 ^ 2)) g17;
         (v1, g19) = draws n (rng_integers N 0 10000) g18;
         (v2, g20) = draws n (rng_integers N 0 10000) g19;
         (ok_u, g21) = draws n (rng_random N) g20;
         ok = map (\<lambda>u. u < 0.8) ok_u
     in (case two_letter k1 of Inl e \<Rightarrow> Inl e | Inr key1 \<Rightarrow>
        (case two_letter k2 of Inl e \<Rightarrow> Inl e | Inr key2 \<Rightarrow>
     (let payload =
           map2 (@)
             (map2 (@) (map (\<lambda>k. ''{'' @ dq @ k) key1)
                       (map (\<lambda>v. dq @ '':'' @ str_int v) v1))
             (map2 (@) (map (\<lambda>k. '','' @ dq @ k) key2)
                       (map2 (@) (map (\<lambda>v. dq @ '':'' @ str_int v) v2)
                                 (map (\<lambda>b. if b then '','' @ dq @ ''ok'' @ dq @ '':true}''
                                            else '','' @ dq @ ''ok'' @ dq @ '':false}'') ok)));
         (url_u, g22) = draws n (rng_random N) g21;
         url_mask = map (\<lambda>u. u < 0.03) url_u;
         (country_u, g23) = draws n (rng_random N) g22;
         country_mask = map (\<lambda>u. u < 0.01) country_u;
         url = map2 (\<lambda>m v. if m then None else Some v) url_mask url0;
         country = map2 (\<lambda>m v. if m then None else Some v) country_mask country0;
         all_nulls = replicate n ()
     in (case pa_table
          [(''event_id'', Int64Array (map Some ids)),
           (''user_id'', Int64Array (map Some user_id)),
           (''session_id'', Int64Array (map Some session_id)),
           (''event_ts'', TimestampArray (map Some ts)),
           (''price'', Float64Array (map Some price)),
           (''quantity'', Int16Array (map Some quantity)),
           (''score'', Float32Array (map Some score)),
           (''latency_ms'', Float64Array (map Some latency_ms)),
           (''rating'', Float32Array (map Some rating)),
           (''is_refund'', BoolArray (map Some is_refund)),
           (''is_mobile'', BoolArray (map Some is_mobile)),
           (''country'', StringArray country),
           (''channel'', StringArray (map Some channel)),
           (''product_sku'', StringArray (map Some product_sku)),
           (''url'', StringArray url),
           (''payload'', StringArray (map Some payload)),
           (''null_comment'', StringArray (map (\<lambda>u. None) all_nulls)),
           (''null_amount'', Float64Array (map (\<lambda>u. None) all_nulls)),
           (''null_updated_at'', TimestampArray (map (\<lambda>u. None) all_nulls)),
           (''null_flag'', BoolArray (map (\<lambda>u. None) all_nulls))]
        of Inl e \<Rightarrow> Inl e | Inr tbl \<Rightarrow> Inr (tbl, g23))))))))))))))))))"

section \<open>The file system and the Parquet writer\<close>

text \<open>
  The writer is pyarrow's and the files are the operating system's. A path is the list of
  its components. A file written by \<^verbatim>\<open>ParquetWriter\<close> is described by what determines its
  bytes: the schema and options it was opened with, the row groups appended so far and
  whether the footer has been written by \<^verbatim>\<open>close\<close>. What the writer does with that is a
  parameter (\<open>env\<close>): which calls raise (with the message of the exception, which the
  script passes on as \<open>ExternalError\<close>), and the size \<^verbatim>\<open>stat\<close> reports for a file in a
  given state. The wall clock is a parameter too: \<open>time_time E k\<close> is what the \<open>k\<close>-th call
  of \<^verbatim>\<open>time.time()\<close> returns.

  The world keeps the files and, in order, the calls that reached the system.
\<close>

type_synonym path = "string list"

type_synonym schema = "(string \<times> arrow_type) list"

record pfile =
  f_schema :: schema
  f_use_dictionary :: bool
  f_kwargs :: "(string \<times> kwval) list"
  f_rowgroups :: "table list"
  f_closed :: bool

datatype event =
    EvUnlink path
  | EvOpen path
  | EvWrite path table
  | EvStat path int
  | EvClose path
  | EvPrint string

record world =
  files :: "path \<rightharpoonup> pfile"
  events :: "event list"
  ticks :: nat

record env =
  open_raises :: "path \<Rightarrow> schema \<Rightarrow> bool \<Rightarrow> (string \<times> kwval) list \<Rightarrow> string option"
  write_raises :: "pfile \<Rightarrow> table \<Rightarrow> string option"
  close_raises :: "pfile \<Rightarrow> string option"
  st_size :: "pfile \<Rightarrow> nat"
  time_time :: "nat \<Rightarrow> real"

definition path_exists :: "world \<Rightarrow> path \<Rightarrow> bool" where
  "path_exists w p \<longleftrightarrow> files w p \<noteq> None"

definition path_unlink :: "path \<Rightarrow> world \<Rightarrow> world" where
  "path_unlink p w = w\<lparr>files := (files w)(p := None), events := events w @ [EvUnlink p]\<rparr>"

definition py_time :: "env \<Rightarrow> world \<Rightarrow> real \<times> world" where
  "py_time E w = (time_time E (ticks w), w\<lparr>ticks := ticks w + 1\<rparr>)"

definition py_print :: "string \<Rightarrow> world \<Rightarrow> world" where
  "py_print s w = w\<lparr>events := events w @ [EvPrint s]\<rparr>"

text \<open>
  \<^verbatim>\<open>pq.ParquetWriter(where, schema, use_dictionary, **kwargs)\<close> creates the file, empty of
  row groups, or raises. The writer object is identified with the path it writes.
\<close>

definition ParquetWriter ::
  "env \<Rightarrow> path \<Rightarrow> schema \<Rightarrow> bool \<Rightarrow> (string \<times> kwval) list \<Rightarrow> world \<Rightarrow> (py_error + path) \<times> world" where
  "ParquetWriter E p sch use_dictionary kwargs w =
     (case open_raises E p sch use_dictionary kwargs of
        Some m \<Rightarrow> (Inl (ExternalError m), w)
      | None \<Rightarrow>
          (Inr p,
           w\<lparr>files := (files w)(p \<mapsto>
                \<lparr>f_schema = sch, f_use_dictionary = use_dictionary, f_kwargs = kwargs,
                 f_rowgroups = [], f_closed = False\<rparr>),
             events := events w @ [EvOpen p]\<rparr>))"

text \<open>
  \<^verbatim>\<open>writer.write_table(tbl)\<close> refuses a table whose schema differs from the writer's with
  \<^verbatim>\<open>ValueError\<close>, and appends the table as one row group unless the writer raises.
\<close>

definition write_table :: "env \<Rightarrow> path \<Rightarrow> table \<Rightarrow> world \<Rightarrow> py_error option \<times> world" where
  "write_table E wr tbl w =
     (case files w wr of
        None \<Rightarrow> (Some FileNotFoundError, w)
      | Some f \<Rightarrow>
          if table_schema tbl \<noteq> f_schema f then (Some ValueError, w)
          else (case write_raises E f tbl of
                  Some m \<Rightarrow> (Some (ExternalError m), w)
                | None \<Rightarrow>
                    (None,
                     w\<lparr>files := (files w)(wr \<mapsto> f\<lparr>f_rowgroups := f_rowgroups f @ [tbl]\<rparr>),
                       events := events w @ [EvWrite wr tbl]\<rparr>)))"

text \<open>\<^verbatim>\<open>out_path.stat().st_size\<close>.\<close>

definition path_stat_size :: "env \<Rightarrow> path \<Rightarrow> world \<Rightarrow> (py_error + int) \<times> world" where
  "path_stat_size E p w =
     (case files w p of
        None \<Rightarrow> (Inl FileNotFoundError, w)
      | Some f \<Rightarrow>
          (Inr (int (st_size E f)),
           w\<lparr>events := events w @ [EvStat p (int (st_size E f))]\<rparr>))"

text \<open>\<^verbatim>\<open>writer.close()\<close>: the call is recorded whether or not it raises.\<close>

definition writer_close :: "env \<Rightarrow> path \<Rightarrow> world \<Rightarrow> py_error option \<times> world" where
  "writer_close E wr w =
     (let w' = w\<lparr>events := events w @ [EvClose wr]\<rparr>
      in case files w wr of
           None \<Rightarrow> (Some FileNotFoundError, w')
         | Some f \<Rightarrow>
             (case close_raises E f of
                Some m \<Rightarrow> (Some (ExternalError m), w')
              | None \<Rightarrow> (None, w'\<lparr>files := (files w)(wr \<mapsto> f\<lparr>f_closed := True\<rparr>)\<rparr>)))"

section \<open>Writing until the size target\<close>

definition hit_max_message :: "int \<Rightarrow> int \<Rightarrow> int \<Rightarrow> string" where
  "hit_max_message max_row_groups target_bytes sz =
     ''Hit max_row_groups='' @ str_int max_row_groups @ '' before reaching ''
     @ human_bytes target_bytes @ '' (got '' @ human_bytes sz @ '').''"

text \<open>
  The body of \<^verbatim>\<open>while True\<close> in \<^verbatim>\<open>write_to_target\<close>. The loop variables are
  \<^verbatim>\<open>writer\<close>, \<^verbatim>\<open>row_groups\<close>, \<^verbatim>\<open>base_id\<close> and the generator; the result carries the
  writer as the \<^verbatim>\<open>finally\<close> clause will see it.
\<close>

function write_loop ::
  "env \<Rightarrow> 'g numpy \<Rightarrow> path \<Rightarrow> int \<Rightarrow> int \<Rightarrow> bool \<Rightarrow> real \<Rightarrow> int \<Rightarrow> int \<Rightarrow> (string \<times> kwval) list
   \<Rightarrow> path option \<Rightarrow> int \<Rightarrow> int \<Rightarrow> 'g \<Rightarrow> world \<Rightarrow> (py_error + int) \<times> path option \<times> world" where
  "write_loop E N out_path target_bytes row_group_rows use_dictionary overshoot_pct
     max_row_groups start_ts_ms writer_kwargs writer row_groups base_id rng w =
     (case make_rowgroup N row_group_rows rng base_id start_ts_ms of
        Inl e \<Rightarrow> (Inl e, writer, w)
      | Inr (tbl, rng') \<Rightarrow>
          (case (case writer of
                   None \<Rightarrow> ParquetWriter E out_path (table_schema tbl) use_dictionary
                             writer_kwargs w
                 | Some wr \<Rightarrow> (Inr wr, w)) of
             (Inl e, w1) \<Rightarrow> (Inl e, writer, w1)
           | (Inr wr, w1) \<Rightarrow>
               (case write_table E wr tbl w1 of
                  (Some e, w2) \<Rightarrow> (Inl e, Some wr, w2)
                | (None, w2) \<Rightarrow>
                    (case path_stat_size E out_path w2 of
                       (Inl e, w3) \<Rightarrow> (Inl e, Some wr, w3)
                     | (Inr sz, w3) \<Rightarrow>
                         if real_of_int target_bytes * (1.0 + overshoot_pct) \<le> real_of_int sz
                         then (Inr sz, Some wr, w3)
                         else if max_row_groups \<le> row_groups + 1
                         then (Inl (RuntimeError
                                      (hit_max_message max_row_groups target_bytes sz)),
                               Some wr, w3)
                         else write_loop E N out_path target_bytes row_group_rows
                                use_dictionary overshoot_pct max_row_groups start_ts_ms
                                writer_kwargs (Some wr) (row_groups + 1)
                                (base_id + row_group_rows) rng' w3))))"
  by pat_completeness auto
termination
  by (relation "measure (\<lambda>(E, N, out_path, target_bytes, row_group_rows, use_dictionary,
         overshoot_pct, max_row_groups, start_ts_ms, writer_kwargs, writer, row_groups,
         base_id, rng, w). nat (max_row_groups - row_groups))") auto

declare write_loop.simps [simp del]

text \<open>
  \<^verbatim>\<open>write_to_target\<close>: remove an existing file, seed the generator, read the clock, run
  the loop inside \<^verbatim>\<open>try\<close>, and close the writer in \<^verbatim>\<open>finally\<close> if one was created. An
  exception raised by \<^verbatim>\<open>close\<close> replaces the outcome of the loop.
\<close>

definition write_to_target ::
  "env \<Rightarrow> 'g numpy \<Rightarrow> path \<Rightarrow> int \<Rightarrow> int \<Rightarrow> string option \<Rightarrow> int option \<Rightarrow> bool \<Rightarrow> int \<Rightarrow> real
   \<Rightarrow> int \<Rightarrow> world \<Rightarrow> (py_error + int) \<times> world" where
  "write_to_target E N out_path target_bytes row_group_rows compression compression_level
     use_dictionary seed overshoot_pct max_row_groups w =
     (let w1 = (if path_exists w out_path then path_unlink out_path w else w)
      in case default_rng N seed of
           None \<Rightarrow> (Inl ValueError, w1)
         | Some rng \<Rightarrow>
             (let (t, w2) = py_time E w1;
                  start_ts_ms = py_int (t * 1000);
                  writer_kwargs = make_writer_kwargs compression compression_level;
                  (res, writer, w3) =
                    write_loop E N out_path target_bytes row_group_rows use_dictionary
                      overshoot_pct max_row_groups start_ts_ms writer_kwargs None 0 0 rng w2
              in case writer of
                   None \<Rightarrow> (res, w3)
                 | Some wr \<Rightarrow>
                     (case writer_close E wr w3 of
                        (Some e, w4) \<Rightarrow> (Inl e, w4)
                      | (None, w4) \<Rightarrow> (res, w4))))"

section \<open>The loop over the targets\<close>

text \<open>
  The \<^verbatim>\<open>for t in targets\<close> loop of \<^verbatim>\<open>main\<close>, after the arguments have been parsed. There
  is no \<^verbatim>\<open>try\<close> around the call of \<^verbatim>\<open>write_to_target\<close>: an exception ends the loop and
  \<^verbatim>\<open>main\<close>. The record \<open>args\<close> holds the parsed arguments the loop reads.
\<close>

record args =
  arg_out_dir :: path
  arg_compression :: "string option"
  arg_compression_level :: "int option"
  arg_row_group_rows :: int
  arg_dictionary :: bool
  arg_seed :: int
  arg_overshoot :: real
  arg_max_row_groups :: int

definition codec_tag :: "args \<Rightarrow> string" where
  "codec_tag a = (case arg_compression a of None \<Rightarrow> ''none'' | Some c \<Rightarrow> if c = [] then ''none'' else c)"

definition lvl_tag :: "args \<Rightarrow> string" where
  "lvl_tag a =
     (case (arg_compression_level a, arg_compression a) of
        (Some l, Some c) \<Rightarrow> ''-lvl'' @ str_int l
      | _ \<Rightarrow> [])"

definition fname :: "args \<Rightarrow> int \<Rightarrow> string" where
  "fname a t =
     ''realish_''
     @ map (\<lambda>c. if c = CHR ''.'' then CHR ''_'' else c)
         (filter (\<lambda>c. c \<noteq> CHR '' '') (human_bytes t))
     @ ''_'' @ codec_tag a @ lvl_tag a @ ''.parquet''"

fun main_loop :: "env \<Rightarrow> 'g numpy \<Rightarrow> args \<Rightarrow> int list \<Rightarrow> world \<Rightarrow> (py_error + unit) \<times> world" where
  "main_loop E N a [] w = (Inr (), w)"
| "main_loop E N a (t # targets) w =
     (let out_path = arg_out_dir a @ [fname a t];
          w1 = py_print ([CHR 0x0A] @ ''Writing '' @ fname a t @ '' (target ''
                         @ human_bytes t @ '') ...'') w
      in case write_to_target E N out_path t (arg_row_group_rows a) (arg_compression a)
                (arg_compression_level a) (arg_dictionary a) (arg_seed a) (arg_overshoot a)
                (arg_max_row_groups a) w1 of
           (Inl e, w2) \<Rightarrow> (Inl e, w2)
         | (Inr final_size, w2) \<Rightarrow>
             main_loop E N a targets (py_print (''Done: '' @ human_bytes final_size) w2))"

section \<open>What is observed of a run\<close>

text \<open>The schema of the tables \<^verbatim>\<open>make_rowgroup\<close> builds: the 20 names and types of the source.\<close>

definition rowgroup_schema :: schema where
  "rowgroup_schema =
     [(''event_id'', T_int64), (''user_id'', T_int64), (''session_id'', T_int64),
      (''event_ts'', T_timestamp_ms), (''price'', T_float64), (''quantity'', T_int16),
      (''score'', T_float32), (''latency_ms'', T_float64), (''rating'', T_float32),
      (''is_refund'', T_bool), (''is_mobile'', T_bool), (''country'', T_string),
      (''channel'', T_string), (''product_sku'', T_string), (''url'', T_string),
      (''payload'', T_string), (''null_comment'', T_string), (''null_amount'', T_float64),
      (''null_updated_at'', T_timestamp_ms), (''null_flag'', T_bool)]"

definition all_null_columns :: "string list" where
  "all_null_columns = [''null_comment'', ''null_amount'', ''null_updated_at'', ''null_flag'']"

definition nullable_columns :: "string list" where
  "nullable_columns = [''url'', ''country'']"

text \<open>The \<^verbatim>\<open>event_id\<close> column of a table.\<close>

definition event_ids :: "table \<Rightarrow> int option list" where
  "event_ids tbl = (case table_column tbl ''event_id'' of Some (Int64Array xs) \<Rightarrow> xs | _ \<Rightarrow> [])"

text \<open>The calls a run added to the world's record.\<close>

definition run_events :: "world \<Rightarrow> world \<Rightarrow> event list" where
  "run_events w w' = drop (length (events w)) (events w')"

fun observed_sizes :: "event list \<Rightarrow> int list" where
  "observed_sizes [] = []"
| "observed_sizes (EvStat p sz # evs) = sz # observed_sizes evs"
| "observed_sizes (ev # evs) = observed_sizes evs"

fun written_tables :: "event list \<Rightarrow> table list" where
  "written_tables [] = []"
| "written_tables (EvWrite p tbl # evs) = tbl # written_tables evs"
| "written_tables (ev # evs) = written_tables evs"

fun is_close :: "event \<Rightarrow> bool" where
  "is_close (EvClose p) = True"
| "is_close ev = False"

fun is_open :: "event \<Rightarrow> bool" where
  "is_open (EvOpen p) = True"
| "is_open ev = False"

fun is_unlink :: "event \<Rightarrow> bool" where
  "is_unlink (EvUnlink p) = True"
| "is_unlink ev = False"

text \<open>The row groups of the file at a path, none when there is no file.\<close>

definition file_rowgroups :: "world \<Rightarrow> path \<Rightarrow> table list" where
  "file_rowgroups w p = (case files w p of None \<Rightarrow> [] | Some f \<Rightarrow> f_rowgroups f)"

text \<open>
  A sink whose reported size does not decrease when a row group is appended, and a sink
  none of whose calls raises.
\<close>

definition mono_sink :: "env \<Rightarrow> bool" where
  "mono_sink E \<longleftrightarrow> (\<forall>f tbl. st_size E f \<le> st_size E (f\<lparr>f_rowgroups := f_rowgroups f @ [tbl]\<rparr>))"

definition sink_never_raises :: "env \<Rightarrow> bool" where
  "sink_never_raises E \<longleftrightarrow>
     (\<forall>p sch d kw. open_raises E p sch d kw = None) \<and> (\<forall>f tbl. write_raises E f tbl = None)
     \<and> (\<forall>f. close_raises E f = None)"

section \<open>A small generator and a small sink\<close>

text \<open>
  A generator whose state is a counter and a sink that never fails and reports 4 bytes
  for an empty file, 100 bytes per row group and 8 bytes for the footer. They serve as
  concrete inputs.
\<close>

definition demo_numpy :: "nat numpy" where
  "demo_numpy =
     \<lparr>default_rng = (\<lambda>s. if s < 0 then None else Some (nat s)),
      rng_zipf = (\<lambda>a g. (1 + int (g mod 3), Suc g)),
      rng_integers = (\<lambda>lo hi g. (if lo < hi then lo + int g mod (hi - lo) else lo, Suc g)),
      rng_lognormal = (\<lambda>m s g. (1, Suc g)),
      rng_geometric = (\<lambda>p g. (1 + int (g mod 2), Suc g)),
      rng_standard_normal = (\<lambda>g. (0, Suc g)),
      rng_exponential = (\<lambda>sc g. (1, Suc g)),
      rng_beta = (\<lambda>a b g. (1 / 2, Suc g)),
      rng_random = (\<lambda>g. (real (g mod 4) / 4, Suc g)),
      rng_choice = (\<lambda>pool g. (if pool = [] then [] else pool ! (g mod length pool), Suc g)),
      astype_float32 = (\<lambda>x. x)\<rparr>"

definition demo_env :: "real \<Rightarrow> env" where
  "demo_env now =
     \<lparr>open_raises = (\<lambda>p sch d kw. None),
      write_raises = (\<lambda>f tbl. None),
      close_raises = (\<lambda>f. None),
      st_size = (\<lambda>f. 4 + 100 * length (f_rowgroups f) + (if f_closed f then 8 else 0)),
      time_time = (\<lambda>k. now)\<rparr>"

definition empty_world :: world where
  "empty_world = \<lparr>files = Map.empty, events = [], ticks = 0\<rparr>"

definition demo_args :: "int \<Rightarrow> args" where
  "demo_args cap =
     \<lparr>arg_out_dir = [''parquet_testdata''], arg_compression = Some ''zstd'', arg_compression_level = None,
      arg_row_group_rows = 1, arg_dictionary = True, arg_seed = 1, arg_overshoot = 0.03,
      arg_max_row_groups = cap\<rparr>"

section \<open>The runs of the loop as a relation\<close>

text \<open>
  One rule per way an iteration of \<^verbatim>\<open>while True\<close> can end, and one for going round again.
  The relation holds of the result \<open>write_loop\<close> computes; it is the form in which the
  loop is reasoned about.
\<close>

inductive loop_run ::
  "env \<Rightarrow> 'g numpy \<Rightarrow> path \<Rightarrow> int \<Rightarrow> int \<Rightarrow> bool \<Rightarrow> real \<Rightarrow> int \<Rightarrow> int \<Rightarrow> (string \<times> kwval) list
   \<Rightarrow> path option \<Rightarrow> int \<Rightarrow> int \<Rightarrow> 'g \<Rightarrow> world \<Rightarrow> (py_error + int) \<Rightarrow> path option \<Rightarrow> world \<Rightarrow> bool"
  for E N out_path target_bytes row_group_rows use_dictionary overshoot_pct max_row_groups
    start_ts_ms writer_kwargs
where
  run_synth_raises:
    "make_rowgroup N row_group_rows rng base_id start_ts_ms = Inl e \<Longrightarrow>
     loop_run E N out_path target_bytes row_group_rows use_dictionary overshoot_pct
       max_row_groups start_ts_ms writer_kwargs writer row_groups base_id rng w
       (Inl e) writer w"
| run_open_raises:
    "make_rowgroup N row_group_rows rng base_id start_ts_ms = Inr (tbl, rng') \<Longrightarrow>
     ParquetWriter E out_path (table_schema tbl) use_dictionary writer_kwargs w = (Inl e, w1) \<Longrightarrow>
     loop_run E N out_path target_bytes row_group_rows use_dictionary overshoot_pct
       max_row_groups start_ts_ms writer_kwargs None row_groups base_id rng w
       (Inl e) None w1"
| run_write_raises:
    "make_rowgroup N row_group_rows rng base_id start_ts_ms = Inr (tbl, rng') \<Longrightarrow>
     (case writer of
        None \<Rightarrow> ParquetWriter E out_path (table_schema tbl) use_dictionary writer_kwargs w
      | Some wr \<Rightarrow> (Inr wr, w)) = (Inr wr, w1) \<Longrightarrow>
     write_table E wr tbl w1 = (Some e, w2) \<Longrightarrow>
     loop_run E N out_path target_bytes row_group_rows use_dictionary overshoot_pct
       max_row_groups start_ts_ms writer_kwargs writer row_groups base_id rng w
       (Inl e) (Some wr) w2"
| run_stat_raises:
    "make_rowgroup N row_group_rows rng base_id start_ts_ms = Inr (tbl, rng') \<Longrightarrow>
     (case writer of
        None \<Rightarrow> ParquetWriter E out_path (table_schema tbl) use_dictionary writer_kwargs w
      | Some wr \<Rightarrow> (Inr wr, w)) = (Inr wr, w1) \<Longrightarrow>
     write_table E wr tbl w1 = (None, w2) \<Longrightarrow>
     path_stat_size E out_path w2 = (Inl e, w3) \<Longrightarrow>
     loop_run E N out_path target_bytes row_group_rows use_dictionary overshoot_pct
       max_row_groups start_ts_ms writer_kwargs writer row_groups base_id rng w
       (Inl e) (Some wr) w3"
| run_return:
    "make_rowgroup N row_group_rows rng base_id start_ts_ms = Inr (tbl, rng') \<Longrightarrow>
     (case writer of
        None \<Rightarrow> ParquetWriter E out_path (table_schema tbl) use_dictionary writer_kwargs w
      | Some wr \<Rightarrow> (Inr wr, w)) = (Inr wr, w1) \<Longrightarrow>
     write_table E wr tbl w1 = (None, w2) \<Longrightarrow>
     path_stat_size E out_path w2 = (Inr sz, w3) \<Longrightarrow>
     real_of_int target_bytes * (1.0 + overshoot_pct) \<le> real_of_int sz \<Longrightarrow>
     loop_run E N out_path target_bytes row_group_rows use_dictionary overshoot_pct
       max_row_groups start_ts_ms writer_kwargs writer row_groups base_id rng w
       (Inr sz) (Some wr) w3"
| run_cap:
    "make_rowgroup N row_group_rows rng base_id start_ts_ms = Inr (tbl, rng') \<Longrightarrow>
     (case writer of
        None \<Rightarrow> ParquetWriter E out_path (table_schema tbl) use_dictionary writer_kwargs w
      | Some wr \<Rightarrow> (Inr wr, w)) = (Inr wr, w1) \<Longrightarrow>
     write_table E wr tbl w1 = (None, w2) \<Longrightarrow>
     path_stat_size E out_path w2 = (Inr sz, w3) \<Longrightarrow>
     \<not> real_of_int target_bytes * (1.0 + overshoot_pct) \<le> real_of_int sz \<Longrightarrow>
     max_row_groups \<le> row_groups + 1 \<Longrightarrow>
     loop_run E N out_path target_bytes row_group_rows use_dictionary overshoot_pct
       max_row_groups start_ts_ms writer_kwargs writer row_groups base_id rng w
       (Inl (RuntimeError (hit_max_message max_row_groups target_bytes sz))) (Some wr) w3"
| run_again:
    "make_rowgroup N row_group_rows rng base_id start_ts_ms = Inr (tbl, rng') \<Longrightarrow>
     (case writer of
        None \<Rightarrow> ParquetWriter E out_path (table_schema tbl) use_dictionary writer_kwargs w
      | Some wr \<Rightarrow> (Inr wr, w)) = (Inr wr, w1) \<Longrightarrow>
     write_table E wr tbl w1 = (None, w2) \<Longrightarrow>
     path_stat_size E out_path w2 = (Inr sz, w3) \<Longrightarrow>
     \<not> real_of_int target_bytes * (1.0 + overshoot_pct) \<le> real_of_int sz \<Longrightarrow>
     \<not> max_row_groups \<le> row_groups + 1 \<Longrightarrow>
     loop_run E N out_path target_bytes row_group_rows use_dictionary overshoot_pct
       max_row_groups start_ts_ms writer_kwargs (Some wr) (row_groups + 1)
       (base_id + row_group_rows) rng' w3 res writer' w' \<Longrightarrow>
     loop_run E N out_path target_bytes row_group_rows use_dictionary overshoot_pct
       max_row_groups start_ts_ms writer_kwargs writer row_groups base_id rng w
       res writer' w'"

section \<open>Facts about the synthesiser\<close>

lemma length_draws [simp]: "length (fst (draws n f g)) = n"
  by (induction n arbitrary: g) (auto simp: split_beta Let_def)

lemma draws_length: "draws n f g = (xs, g') \<Longrightarrow> length xs = n"
  using length_draws [of n f g] by simp

lemma pa_table_Inr: "pa_table cols = Inr tbl \<Longrightarrow> tbl = cols"
  by (auto simp: pa_table_def split: list.splits prod.splits if_splits)

lemma np_take_length: "np_take xs idx = Inr ys \<Longrightarrow> length ys = length idx"
  by (auto simp: np_take_def Let_def split: if_splits)

lemma two_letter_length: "two_letter x = Inr ys \<Longrightarrow> length ys = length x"
  by (auto simp: two_letter_def split: sum.splits dest!: np_take_length)

lemma apply_along_axis_join_length:
  "apply_along_axis_join rows = Inr ys \<Longrightarrow> length ys = length rows \<and> rows \<noteq> []"
  by (auto simp: apply_along_axis_join_def split: list.splits)

lemma np_arange_int64_length:
  "np_arange_int64 start stop = Inr ids \<Longrightarrow> length ids = nat (stop - start)"
  by (auto simp: np_arange_int64_def Let_def split: if_splits)

lemma case_sum_Inr_D:
  assumes "(case x of Inl e \<Rightarrow> Inl e | Inr y \<Rightarrow> f y) = Inr r"
  shows "x = Inr (projr x)" and "f (projr x) = Inr r"
  using assms by (cases x; simp)+

lemma if_Inl_D:
  assumes "(if c then Inl e else x) = Inr r"
  shows "\<not> c" and "x = Inr r"
  using assms by (cases c; simp)+

lemma pa_table_case_D:
  assumes "(case pa_table cols of Inl e \<Rightarrow> Inl e | Inr t \<Rightarrow> Inr (t, g)) = Inr (tbl, g')"
  shows "tbl = cols" and "g = g'"
  using assms by (cases "pa_table cols"; auto dest: pa_table_Inr)+

lemma make_rowgroup_Inr_E:
  assumes "make_rowgroup N n_rows rng base_id start_ts_ms = Inr (tbl, g')"
  obtains ids user_id session_id ts price quantity score latency_ms rating is_refund
    is_mobile country0 channel product_sku url0 payload url_u country_u ga gb
  where "tbl =
          [(''event_id'', Int64Array (map Some ids)),
           (''user_id'', Int64Array (map Some user_id)),
           (''session_id'', Int64Array (map Some session_id)),
           (''event_ts'', TimestampArray (map Some ts)),
           (''price'', Float64Array (map Some price)),
           (''quantity'', Int16Array (map Some quantity)),
           (''score'', Float32Array (map Some score)),
           (''latency_ms'', Float64Array (map Some latency_ms)),
           (''rating'', Float32Array (map Some rating)),
           (''is_refund'', BoolArray (map Some is_refund)),
           (''is_mobile'', BoolArray (map Some is_mobile)),
           (''country'', StringArray (map2 (\<lambda>m v. if m then None else Some v)
                                        (map (\<lambda>u. u < 0.01) country_u) country0)),
           (''channel'', StringArray (map Some channel)),
           (''product_sku'', StringArray (map Some product_sku)),
           (''url'', StringArray (map2 (\<lambda>m v. if m then None else Some v)
                                    (map (\<lambda>u. u < 0.03) url_u) url0)),
           (''payload'', StringArray (map Some payload)),
           (''null_comment'', StringArray (map (\<lambda>u. None) (replicate (nat n_rows) ()))),
           (''null_amount'', Float64Array (map (\<lambda>u. None) (replicate (nat n_rows) ()))),
           (''null_updated_at'', TimestampArray (map (\<lambda>u. None) (replicate (nat n_rows) ()))),
           (''null_flag'', BoolArray (map (\<lambda>u. None) (replicate (nat n_rows) ())))]"
    and "np_arange_int64 base_id (base_id + n_rows) = Inr ids"
    and "draws (nat n_rows) (rng_random N) ga = (url_u, gb)"
    and "draws (nat n_rows) (rng_random N) gb = (country_u, g')"
    and "1 \<le> n_rows" and "fits_int64 start_ts_ms"
    and "length user_id = nat n_rows" and "length session_id = nat n_rows"
    and "length ts = nat n_rows" and "length price = nat n_rows"
    and "length quantity = nat n_rows" and "length score = nat n_rows"
    and "length latency_ms = nat n_rows" and "length rating = nat n_rows"
    and "length is_refund = nat n_rows" and "length is_mobile = nat n_rows"
    and "length country0 = nat n_rows" and "length channel = nat n_rows"
    and "length product_sku = nat n_rows" and "length url0 = nat n_rows"
    and "length payload = nat n_rows"
    and "length url_u = nat n_rows" and "length country_u = nat n_rows"
proof -
  let ?n = "nat n_rows"
  obtain raw_zipf g1 where d1: "draws ?n (rng_zipf N 1.5) rng = (raw_zipf, g1)" by fastforce
  obtain session_id g2 where d2: "draws ?n (rng_integers N 1 50000000) g1 = (session_id, g2)" by fastforce
  obtain jitter g3 where d3: "draws ?n (rng_integers N 0 2000) g2 = (jitter, g3)" by fastforce
  obtain lognormal g4 where d4: "draws ?n (rng_lognormal N 2.8 1.2) g3 = (lognormal, g4)" by fastforce
  obtain geometric g5 where d5: "draws ?n (rng_geometric N 0.45) g4 = (geometric, g5)" by fastforce
  obtain normal g6 where d6: "draws ?n (rng_standard_normal N) g5 = (normal, g6)" by fastforce
  obtain exponential g7 where d7: "draws ?n (rng_exponential N 120) g6 = (exponential, g7)" by fastforce
  obtain beta g8 where d8: "draws ?n (rng_beta N 5 2) g7 = (beta, g8)" by fastforce
  obtain refund_u g9 where d9: "draws ?n (rng_random N) g8 = (refund_u, g9)" by fastforce
  obtain mobile_u g10 where d10: "draws ?n (rng_random N) g9 = (mobile_u, g10)" by fastforce
  obtain country_idx g11 where
    d11: "draws ?n (rng_integers N 0 (int (length country_codes))) g10 = (country_idx, g11)" by fastforce
  obtain channel_idx g12 where
    d12: "draws ?n (rng_integers N 0 (int (length channel_vals))) g11 = (channel_idx, g12)" by fastforce
  obtain sku_letters g13 where
    d13: "draws ?n (draws 5 (rng_choice N upper_letters)) g12 = (sku_letters, g13)" by fastforce
  obtain sku_nums g14 where d14: "draws ?n (rng_integers N 0 10000) g13 = (sku_nums, g14)" by fastforce
  obtain page_idx g15 where
    d15: "draws ?n (rng_integers N 0 (int (length pages))) g14 = (page_idx, g15)" by fastforce
  obtain q g16 where d16: "draws ?n (rng_integers N 0 10000000) g15 = (q, g16)" by fastforce
  obtain k1 g17 where d17: "draws ?n (rng_integers N 0 (26 ^ 2)) g16 = (k1, g17)" by fastforce
  obtain k2 g18 where d18: "draws ?n (rng_integers N 0 (26 ^ 2)) g17 = (k2, g18)" by fastforce
  obtain v1 g19 where d19: "draws ?n (rng_integers N 0 10000) g18 = (v1, g19)" by fastforce
  obtain v2 g20 where d20: "draws ?n (rng_integers N 0 10000) g19 = (v2, g20)" by fastforce
  obtain ok_u g21 where d21: "draws ?n (rng_random N) g20 = (ok_u, g21)" by fastforce
  obtain url_u g22 where d22: "draws ?n (rng_random N) g21 = (url_u, g22)" by fastforce
  obtain country_u g23 where d23: "draws ?n (rng_random N) g22 = (country_u, g23)" by fastforce
  note ds = d1 d2 d3 d4 d5 d6 d7 d8 d9 d10 d11 d12 d13 d14 d15 d16 d17 d18 d19 d20 d21 d22 d23
  note ls = ds [THEN draws_length]
  note H = assms [unfolded make_rowgroup_def Let_def ds prod.case]
  note a = case_sum_Inr_D(1) [OF H] and H1 = case_sum_Inr_D(2) [OF H]
  note nn = if_Inl_D(1) [OF H1] and H2 = if_Inl_D(2) [OF H1]
  note f = if_Inl_D(1) [OF H2] and H3 = if_Inl_D(2) [OF H2]
  note c1 = case_sum_Inr_D(1) [OF H3] and H4 = case_sum_Inr_D(2) [OF H3]
  note c2 = case_sum_Inr_D(1) [OF H4] and H5 = case_sum_Inr_D(2) [OF H4]
  note c3 = case_sum_Inr_D(1) [OF H5] and H6 = case_sum_Inr_D(2) [OF H5]
  note c4 = case_sum_Inr_D(1) [OF H6] and H7 = case_sum_Inr_D(2) [OF H6]
  note c5 = case_sum_Inr_D(1) [OF H7] and H8 = case_sum_Inr_D(2) [OF H7]
  note c6 = case_sum_Inr_D(1) [OF H8] and H9 = case_sum_Inr_D(2) [OF H8]
  note T = pa_table_case_D(1) [OF H9] and G = pa_table_case_D(2) [OF H9]
  note lens = np_arange_int64_length [OF a] np_take_length [OF c1] np_take_length [OF c2]
    apply_along_axis_join_length [OF c3, THEN conjunct1] np_take_length [OF c4]
    two_letter_length [OF c5] two_letter_length [OF c6]
  have pos: "1 \<le> n_rows"
    using apply_along_axis_join_length [OF c3] ls(13) by (cases "n_rows \<le> 0") auto
  show ?thesis
    by (rule that [OF T, where ga = g21 and gb = g22])
      (use a pos f in \<open>simp_all add: ls lens d22 d23 [unfolded G]\<close>)
qed

lemma draws_integers_range:
  assumes "rng_ok N" "lo < hi" "draws n (rng_integers N lo hi) g = (xs, g')"
  shows "\<forall>x \<in> set xs. lo \<le> x \<and> x < hi"
  using assms(3)
proof (induction n arbitrary: g xs g')
  case 0
  then show ?case by simp
next
  case (Suc n)
  obtain x g1 where x: "rng_integers N lo hi g = (x, g1)" by fastforce
  obtain ys g2 where ys: "draws n (rng_integers N lo hi) g1 = (ys, g2)" by fastforce
  have "lo \<le> x \<and> x < hi"
    using assms(1,2) x unfolding rng_ok_def by (metis fst_conv)
  with Suc.IH [OF ys] Suc.prems x ys show ?case by auto
qed

lemma np_take_ok:
  assumes "\<forall>i \<in> set idx. 0 \<le> i \<and> i < int (length xs)"
  shows "np_take xs idx = Inr (map (\<lambda>i. xs ! nat i) idx)"
proof -
  have "list_all (\<lambda>i. - int (length xs) \<le> i \<and> i < int (length xs)) idx"
    using assms by (auto simp: list_all_iff)
  moreover have "map (\<lambda>i. xs ! nat (if i < 0 then i + int (length xs) else i)) idx
                 = map (\<lambda>i. xs ! nat i) idx"
    using assms by (intro map_cong) auto
  ultimately show ?thesis by (simp add: np_take_def Let_def)
qed

lemma wrap32_small: "0 \<le> x \<Longrightarrow> x < 2 ^ 31 \<Longrightarrow> wrap32 x = x"
  by (simp add: wrap32_def)

lemma two_letter_ok:
  assumes "\<forall>v \<in> set x. 0 \<le> v \<and> v < 676"
  shows "\<exists>ys. two_letter x = Inr ys"
proof -
  have len: "int (length lower_letters) = 26" by (simp add: lower_letters_def)
  have a: "\<forall>i \<in> set (map (\<lambda>v. wrap32 (v div 26)) x). 0 \<le> i \<and> i < int (length lower_letters)"
    using assms by (auto simp: len wrap32_small)
  have b: "\<forall>i \<in> set (map (\<lambda>v. wrap32 (v mod 26)) x). 0 \<le> i \<and> i < int (length lower_letters)"
    using assms by (auto simp: len wrap32_small)
  show ?thesis
    unfolding two_letter_def np_take_ok [OF a] np_take_ok [OF b] by simp
qed

lemma apply_along_axis_join_ok:
  "rows \<noteq> [] \<Longrightarrow> \<exists>ys. apply_along_axis_join rows = Inr ys"
  by (cases rows) (auto simp: apply_along_axis_join_def)

lemma wrap64_fits: "fits_int64 x \<Longrightarrow> wrap64 x = x"
  by (simp add: wrap64_def fits_int64_def)

lemma np_arange_int64_fits:
  assumes "1 \<le> n" "fits_int64 b" "fits_int64 (b + n - 1)"
  shows "np_arange_int64 b (b + n) = Inr (map (\<lambda>i. b + int i) [0..<nat n])"
proof -
  have "wrap64 (b + int i) = b + int i" if "i < nat n" for i
    using that assms by (intro wrap64_fits) (auto simp: fits_int64_def)
  then have "map (\<lambda>i. wrap64 (b + int i)) [0..<nat n] = map (\<lambda>i. b + int i) [0..<nat n]"
    by (intro map_cong) auto
  moreover have "2 \<le> nat n \<Longrightarrow> fits_int64 (b + 1)"
    using assms by (auto simp: fits_int64_def)
  ultimately show ?thesis
    using assms by (auto simp: np_arange_int64_def Let_def)
qed

lemma np_arange_int64_Inr:
  assumes "np_arange_int64 b (b + n) = Inr ids" "fits_int64 b" "fits_int64 (b + n - 1)"
  shows "ids = map (\<lambda>i. b + int i) [0..<nat n]"
proof (cases "1 \<le> n")
  case True
  from np_arange_int64_fits [OF True assms(2,3)] assms(1) show ?thesis by simp
next
  case False
  then show ?thesis using assms(1) by (auto simp: np_arange_int64_def Let_def)
qed

lemma make_rowgroup_succeeds:
  assumes ok: "rng_ok N" and pos: "1 \<le> n_rows" and fb: "fits_int64 base_id"
    and fe: "fits_int64 (base_id + n_rows - 1)" and fs: "fits_int64 start_ts_ms"
  shows "\<exists>tbl g'. make_rowgroup N n_rows rng base_id start_ts_ms = Inr (tbl, g')"
proof -
  let ?n = "nat n_rows"
  obtain raw_zipf g1 where d1: "draws ?n (rng_zipf N 1.5) rng = (raw_zipf, g1)" by fastforce
  obtain session_id g2 where d2: "draws ?n (rng_integers N 1 50000000) g1 = (session_id, g2)" by fastforce
  obtain jitter g3 where d3: "draws ?n (rng_integers N 0 2000) g2 = (jitter, g3)" by fastforce
  obtain lognormal g4 where d4: "draws ?n (rng_lognormal N 2.8 1.2) g3 = (lognormal, g4)" by fastforce
  obtain geometric g5 where d5: "draws ?n (rng_geometric N 0.45) g4 = (geometric, g5)" by fastforce
  obtain normal g6 where d6: "draws ?n (rng_standard_normal N) g5 = (normal, g6)" by fastforce
  obtain exponential g7 where d7: "draws ?n (rng_exponential N 120) g6 = (exponential, g7)" by fastforce
  obtain beta g8 where d8: "draws ?n (rng_beta N 5 2) g7 = (beta, g8)" by fastforce
  obtain refund_u g9 where d9: "draws ?n (rng_random N) g8 = (refund_u, g9)" by fastforce
  obtain mobile_u g10 where d10: "draws ?n (rng_random N) g9 = (mobile_u, g10)" by fastforce
  obtain country_idx g11 where
    d11: "draws ?n (rng_integers N 0 (int (length country_codes))) g10 = (country_idx, g11)" by fastforce
  obtain channel_idx g12 where
    d12: "draws ?n (rng_integers N 0 (int (length channel_vals))) g11 = (channel_idx, g12)" by fastforce
  obtain sku_letters g13 where
    d13: "draws ?n (draws 5 (rng_choice N upper_letters)) g12 = (sku_letters, g13)" by fastforce
  obtain sku_nums g14 where d14: "draws ?n (rng_integers N 0 10000) g13 = (sku_nums, g14)" by fastforce
  obtain page_idx g15 where
    d15: "draws ?n (rng_integers N 0 (int (length pages))) g14 = (page_idx, g15)" by fastforce
  obtain q g16 where d16: "draws ?n (rng_integers N 0 10000000) g15 = (q, g16)" by fastforce
  obtain k1 g17 where d17: "draws ?n (rng_integers N 0 (26 ^ 2)) g16 = (k1, g17)" by fastforce
  obtain k2 g18 where d18: "draws ?n (rng_integers N 0 (26 ^ 2)) g17 = (k2, g18)" by fastforce
  obtain v1 g19 where d19: "draws ?n (rng_integers N 0 10000) g18 = (v1, g19)" by fastforce
  obtain v2 g20 where d20: "draws ?n (rng_integers N 0 10000) g19 = (v2, g20)" by fastforce
  obtain ok_u g21 where d21: "draws ?n (rng_random N) g20 = (ok_u, g21)" by fastforce
  obtain url_u g22 where d22: "draws ?n (rng_random N) g21 = (url_u, g22)" by fastforce
  obtain country_u g23 where d23: "draws ?n (rng_random N) g22 = (country_u, g23)" by fastforce
  note ds = d1 d2 d3 d4 d5 d6 d7 d8 d9 d10 d11 d12 d13 d14 d15 d16 d17 d18 d19 d20 d21 d22 d23
  note ls = ds [THEN draws_length]
  have a: "np_arange_int64 base_id (base_id + n_rows)
           = Inr (map (\<lambda>i. base_id + int i) [0..<nat n_rows])"
    by (rule np_arange_int64_fits [OF pos fb fe])
  have lens: "0 < int (length country_codes)" "0 < int (length channel_vals)"
    "0 < int (length pages)"
    by (simp_all add: country_codes_def channel_vals_def pages_def)
  note c1 = np_take_ok [OF draws_integers_range [OF ok lens(1) d11]]
  note c2 = np_take_ok [OF draws_integers_range [OF ok lens(2) d12]]
  note c4 = np_take_ok [OF draws_integers_range [OF ok lens(3) d15]]
  have "sku_letters \<noteq> []" using ls(13) pos by auto
  from apply_along_axis_join_ok [OF this] obtain joined where
    c3: "apply_along_axis_join sku_letters = Inr joined" by blast
  have r17: "\<forall>v \<in> set k1. 0 \<le> v \<and> v < 676"
    using draws_integers_range [OF ok _ d17] by simp
  have r18: "\<forall>v \<in> set k2. 0 \<le> v \<and> v < 676"
    using draws_integers_range [OF ok _ d18] by simp
  from two_letter_ok [OF r17] obtain key1 where c5: "two_letter k1 = Inr key1" by blast
  from two_letter_ok [OF r18] obtain key2 where c6: "two_letter k2 = Inr key2" by blast
  note lens2 = apply_along_axis_join_length [OF c3, THEN conjunct1]
    two_letter_length [OF c5] two_letter_length [OF c6]
  have nn: "\<not> n_rows < 0" using pos by simp
  have nf: "\<not> \<not> fits_int64 start_ts_ms" using fs by simp
  show ?thesis
    unfolding make_rowgroup_def Let_def ds prod.case a c1 c2 c3 c4 c5 c6 sum.case
      if_not_P [OF nn] if_not_P [OF nf]
    by (simp add: pa_table_def ls lens2)
qed

lemma rng_ok_demo_numpy: "rng_ok demo_numpy"
proof -
  have "lo \<le> lo + int g mod (hi - lo) \<and> lo + int g mod (hi - lo) < hi"
    if "lo < hi" for lo hi :: int and g :: nat
  proof -
    have p: "0 < hi - lo" using that by simp
    show ?thesis
      using pos_mod_sign [OF p, of "int g"] pos_mod_bound [OF p, of "int g"] by linarith
  qed
  then show ?thesis
    unfolding rng_ok_def demo_numpy_def by simp
qed

lemma nulls_map2_mask:
  "length xs = length ys \<Longrightarrow>
   map (\<lambda>x. x = None) (map2 (\<lambda>m v. if m then None else Some v) (map p xs) ys) = map p xs"
  by (induction xs ys rule: list_induct2) auto

lemma nulls_map_Some: "map ((\<lambda>x. x = None) \<circ> Some) xs = replicate (length xs) False"
  by (induction xs) auto

lemma nulls_map_None: "map (\<lambda>x. x = None) (map (\<lambda>u. None) xs) = replicate (length xs) True"
  by (induction xs) auto

section \<open>Claims about the synthesiser\<close>

text \<open>
  Claim C3 (total synthesiser), as amended. For every row count of at least one, every
  generator whose \<^verbatim>\<open>integers\<close> sampler respects its bounds, and a base id and start time
  such that the ids of the batch and the start time fit in 64 bits, \<open>make_rowgroup\<close> returns
  without raising a table with exactly \<open>n_rows\<close> rows and the 20 columns of the schema,
  with their names and types, each of length \<open>n_rows\<close>.
\<close>

theorem make_rowgroup_total_positive:
  assumes "rng_ok N" and "1 \<le> n_rows" and "fits_int64 base_id"
    and "fits_int64 (base_id + n_rows - 1)" and "fits_int64 start_ts_ms"
  shows "\<exists>tbl g'. make_rowgroup N n_rows rng base_id start_ts_ms = Inr (tbl, g')
           \<and> num_rows tbl = nat n_rows \<and> table_schema tbl = rowgroup_schema
           \<and> list_all (\<lambda>(name, c). column_len c = nat n_rows) tbl"
proof -
  from make_rowgroup_succeeds [OF assms] obtain tbl g' where
    r: "make_rowgroup N n_rows rng base_id start_ts_ms = Inr (tbl, g')" by blast
  from r have "num_rows tbl = nat n_rows \<and> table_schema tbl = rowgroup_schema
           \<and> list_all (\<lambda>(name, c). column_len c = nat n_rows) tbl"
    by (elim make_rowgroup_Inr_E)
      (simp add: num_rows_def table_schema_def rowgroup_schema_def
        np_arange_int64_length [where start = base_id and stop = "base_id + n_rows"])
  with r show ?thesis by blast
qed


text \<open>
  The amended statement of C3 at a concrete input: two rows from the small generator.
\<close>

theorem make_rowgroup_total_positive_witness:
  "rng_ok demo_numpy \<and> (1::int) \<le> 2 \<and> fits_int64 0 \<and> fits_int64 (0 + 2 - 1) \<and> fits_int64 0
   \<and> (\<exists>tbl g'. make_rowgroup demo_numpy 2 5 0 0 = Inr (tbl, g')
           \<and> num_rows tbl = nat 2 \<and> table_schema tbl = rowgroup_schema
           \<and> list_all (\<lambda>(name, c). column_len c = nat 2) tbl)"
proof -
  have h: "(1::int) \<le> 2" "fits_int64 0" "fits_int64 (0 + 2 - 1)"
    by (simp_all add: fits_int64_def)
  show ?thesis
    using make_rowgroup_total_positive [OF rng_ok_demo_numpy h(1) h(2) h(3) h(2), of 5]
      rng_ok_demo_numpy h
    by simp
qed


text \<open>
  Claim C3 as stated fails: with a row count of zero \<^verbatim>\<open>np.apply_along_axis\<close> has no row to
  call the join on and raises \<^verbatim>\<open>ValueError\<close>, and a base id beyond 64 bits makes
  \<^verbatim>\<open>np.arange\<close> raise \<^verbatim>\<open>OverflowError\<close>.
\<close>

theorem make_rowgroup_zero_rows_counterexample:
  "make_rowgroup demo_numpy 0 1 0 0 = Inl ValueError
   \<and> make_rowgroup demo_numpy 1 1 (2 ^ 63) 0 = Inl OverflowError"
  by code_simp

text \<open>
  Claim C5 (null placement). In every table \<open>make_rowgroup\<close> returns, whatever the
  generator state: the four all-null columns are null in every row; every column other
  than these and the two nullable ones (\<^verbatim>\<open>url\<close>, \<^verbatim>\<open>country\<close>) has no null; and the nulls
  of \<^verbatim>\<open>url\<close> and of \<^verbatim>\<open>country\<close> are exactly the rows where a fresh uniform sample is
  below 0.03, respectively below 0.01, the two masks being two successive draws of
  \<^verbatim>\<open>rng.random\<close> that end the call.
\<close>

theorem null_placement:
  assumes "make_rowgroup N n_rows rng base_id start_ts_ms = Inr (tbl, g')"
  shows "(\<forall>name \<in> set all_null_columns.
            map_option column_nulls (table_column tbl name) = Some (replicate (nat n_rows) True))
       \<and> (\<forall>(name, c) \<in> set tbl.
            name \<notin> set all_null_columns \<and> name \<notin> set nullable_columns
            \<longrightarrow> column_nulls c = replicate (nat n_rows) False)
       \<and> (\<exists>ga gb url_u country_u.
             draws (nat n_rows) (rng_random N) ga = (url_u, gb)
           \<and> draws (nat n_rows) (rng_random N) gb = (country_u, g')
           \<and> map_option column_nulls (table_column tbl ''url'')
               = Some (map (\<lambda>u. u < 0.03) url_u)
           \<and> map_option column_nulls (table_column tbl ''country'')
               = Some (map (\<lambda>u. u < 0.01) country_u))"
proof (rule make_rowgroup_Inr_E [OF assms], goal_cases)
  case (1 ids user_id session_id ts price quantity score latency_ms rating is_refund
    is_mobile country0 channel product_sku url0 payload url_u country_u ga gb)
  note tbl = 1(1) and ids = 1(2) and du = 1(3) and dc = 1(4) and len = 1(7-21)
    and lu = 1(22) and lc = 1(23)
  have li: "length ids = nat n_rows" using np_arange_int64_length [OF ids] by simp
  have a: "\<forall>name \<in> set all_null_columns.
            map_option column_nulls (table_column tbl name) = Some (replicate (nat n_rows) True)"
    unfolding tbl by (simp add: all_null_columns_def table_column_def nulls_map_None)
  have b: "\<forall>(name, c) \<in> set tbl.
            name \<notin> set all_null_columns \<and> name \<notin> set nullable_columns
            \<longrightarrow> column_nulls c = replicate (nat n_rows) False"
    unfolding tbl
    apply (simp only: list.set ball_simps prod.case all_null_columns_def nullable_columns_def)
    apply (simp add: nulls_map_Some len li)
    done
  have c: "map_option column_nulls (table_column tbl ''url'') = Some (map (\<lambda>u. u < 0.03) url_u)"
    unfolding tbl using nulls_map2_mask [of url_u url0 "\<lambda>u. u < 0.03"] lu len(14)
    by (simp add: table_column_def)
  have d: "map_option column_nulls (table_column tbl ''country'')
           = Some (map (\<lambda>u. u < 0.01) country_u)"
    unfolding tbl using nulls_map2_mask [of country_u country0 "\<lambda>u. u < 0.01"] lc len(11)
    by (simp add: table_column_def)
  have e: "\<exists>ga gb url_u country_u.
             draws (nat n_rows) (rng_random N) ga = (url_u, gb)
           \<and> draws (nat n_rows) (rng_random N) gb = (country_u, g')
           \<and> map_option column_nulls (table_column tbl ''url'')
               = Some (map (\<lambda>u. u < 0.03) url_u)
           \<and> map_option column_nulls (table_column tbl ''country'')
               = Some (map (\<lambda>u. u < 0.01) country_u)"
    using du dc c d by - (rule exI [of _ ga], rule exI [of _ gb], rule exI [of _ url_u],
        rule exI [of _ country_u], intro conjI; assumption)
  show ?case by (rule conjI [OF a conjI [OF b e]])
qed

text \<open>
  Claim C5 at a concrete input: a table of two rows from the small generator exists and
  has the null placement of the theorem.
\<close>

theorem null_placement_witness:
  "\<exists>tbl g'. make_rowgroup demo_numpy 2 5 0 0 = Inr (tbl, g')
     \<and> (\<forall>name \<in> set all_null_columns.
            map_option column_nulls (table_column tbl name) = Some (replicate (nat 2) True))
     \<and> (\<forall>(name, c) \<in> set tbl.
            name \<notin> set all_null_columns \<and> name \<notin> set nullable_columns
            \<longrightarrow> column_nulls c = replicate (nat 2) False)"
proof -
  have h: "(1::int) \<le> 2" "fits_int64 0" "fits_int64 (0 + 2 - 1)"
    by (simp_all add: fits_int64_def)
  from make_rowgroup_succeeds [OF rng_ok_demo_numpy h(1) h(2) h(3) h(2), of 5]
  obtain tbl g' where r: "make_rowgroup demo_numpy 2 5 0 0 = Inr (tbl, g')" by blast
  note np = null_placement [OF r]
  show ?thesis
    by (rule exI [of _ tbl], rule exI [of _ g'])
      (rule conjI [OF r conjI [OF np [THEN conjunct1] np [THEN conjunct2, THEN conjunct1]]])
qed

end
